theory Spec2Isabelle
  imports Main "HOL-Library.Word" "HOL-Library.AList"
begin

section \<open>The file store of toy-kafka\<close>

text \<open>
  A shallow embedding of \<^verbatim>\<open>svr/backends/implementations/filestore/filestore.go\<close>
  and of the \<^verbatim>\<open>BackingStore\<close> contract it implements. The store keeps everything
  below one root directory: an index file and one directory of message files per topic.
  Every function of the source becomes a function from the disk before the call to its
  results and the disk after it. What the disk itself decides (a file is missing, a
  directory exists, a file was opened for reading only) is computed from the disk and from
  the flags the source opens a file with; failures from outside and the readings of the
  clock are an input of the model (\<open>env\<close>), so a statement proved for every \<open>env\<close>
  holds whatever they are.
\<close>

subsection \<open>Messages\<close>

type_synonym byte = "8 word"

text \<open>
  Modelled from the spec: \<^verbatim>\<open>toykafka.Message\<close> is declared in the root package, which
  is not among the sources; the spec calls it an opaque payload. Instants of
  \<^verbatim>\<open>time.Time\<close> are integers (a count of clock ticks).
\<close>

type_synonym Message = "byte list"
type_synonym Time = int
type_synonym int32 = "32 word"

record storedMessage =
  message :: Message
  creationTime :: Time
  messageNumber :: int32

text \<open>
  \<^verbatim>\<open>gob.NewEncoder(&buf).Encode(msg)\<close> on a \<^verbatim>\<open>storedMessage\<close>. None of the three fields
  of the struct is exported, so the encoder sends the description of the type and then
  fails on the value ("type has no exported fields"). \<^verbatim>\<open>makeMsgToStore\<close> ignores the
  error and returns what the buffer holds: the 26 bytes of the type description (the
  length 25, the type id -65, a struct type of name \<^verbatim>\<open>storedMessage\<close> and id 65, without
  fields), the same for every message, time and number.
\<close>

definition gobEncode :: "storedMessage \<Rightarrow> byte list" where
  "gobEncode m =
     [25, 255, 129, 3, 1, 1, 13,
      115, 116, 111, 114, 101, 100, 77, 101, 115, 115, 97, 103, 101,
      1, 255, 130, 0, 0, 0]"

subsection \<open>The index\<close>

text \<open>
  Modelled from the spec: the package \<^verbatim>\<open>filestore/index\<close> is not among the sources.
  The spec (section 3) gives its data: per topic the next message number and the ordered
  list of segment files, each with the numbers and creation times of its messages. The
  source fixes the type of a message number: \<^verbatim>\<open>msgNumber\<close> is an \<^verbatim>\<open>int32\<close>.
\<close>

record SegmentMeta =
  fileName :: string
  messageNumbers :: "int32 list"
  messageTimestamps :: "(int32 \<times> Time) list"

record TopicIndexEntry =
  nextMessageNumber :: int32
  segments :: "SegmentMeta list"

type_synonym Index = "(string \<times> TopicIndexEntry) list"

text \<open>
  Modelled from the spec: numbering starts "at some fixed origin (e.g., 0 or 1)"; the
  index package that fixes it is absent, and 0 is taken here.
\<close>

definition originMessageNumber :: int32 where
  "originMessageNumber = 0"

text \<open>Modelled from the spec: \<^verbatim>\<open>index.NewIndex()\<close>, an index that knows no topic.\<close>

definition NewIndex :: Index where
  "NewIndex = []"

text \<open>
  Modelled from the spec: \<^verbatim>\<open>GetMessageFileListFor(topic)\<close> "returns the mutable
  segment-list entry for a topic, creating it if absent". The entry read is
  \<open>GetMessageFileListFor\<close>; writing a changed entry back is \<open>putEntry\<close>.
\<close>

definition GetMessageFileListFor :: "string \<Rightarrow> Index \<Rightarrow> TopicIndexEntry" where
  "GetMessageFileListFor topic index =
     (case map_of index topic of
        None \<Rightarrow> \<lparr>nextMessageNumber = originMessageNumber, segments = []\<rparr>
      | Some e \<Rightarrow> e)"

definition putEntry :: "string \<Rightarrow> TopicIndexEntry \<Rightarrow> Index \<Rightarrow> Index" where
  "putEntry topic e index = AList.update topic e index"

text \<open>
  Modelled from the spec: \<^verbatim>\<open>NextMessageNumberFor(topic)\<close> "returns the next number to
  assign and must be treated as reserved the instant it is handed out": the number is
  returned and the topic's counter moves on by one. The counter is an \<^verbatim>\<open>int32\<close>, so
  the addition wraps around.
\<close>

definition NextMessageNumberFor :: "string \<Rightarrow> Index \<Rightarrow> int32 \<times> Index" where
  "NextMessageNumberFor topic index =
     (let e = GetMessageFileListFor topic index
      in (nextMessageNumber e,
          putEntry topic (e\<lparr>nextMessageNumber := nextMessageNumber e + 1\<rparr>) index))"

text \<open>
  Modelled from the spec: \<^verbatim>\<open>CurrentMsgFileNameFor(topic)\<close> "returns the filename of
  the topic's active (last) segment, or an empty/absent value if the topic has no segments
  yet"; the source tests the result against the empty string.
\<close>

definition CurrentMsgFileNameFor :: "string \<Rightarrow> Index \<Rightarrow> string" where
  "CurrentMsgFileNameFor topic index =
     (case segments (GetMessageFileListFor topic index) of
        [] \<Rightarrow> []
      | s # ss \<Rightarrow> fileName (last (s # ss)))"

text \<open>
  Modelled from the spec: \<^verbatim>\<open>RegisterNewFile(fileName)\<close> "appends a new SegmentMeta with
  no messages yet; becomes the new active segment".
\<close>

definition RegisterNewFile :: "string \<Rightarrow> TopicIndexEntry \<Rightarrow> TopicIndexEntry" where
  "RegisterNewFile name e =
     e\<lparr>segments := segments e @
          [\<lparr>fileName = name, messageNumbers = [], messageTimestamps = []\<rparr>]\<rparr>"

text \<open>
  Modelled from the spec: \<^verbatim>\<open>RegisterNewMessage(messageNumber, timestamp)\<close> "records that
  this message number now lives in this segment, with its creation timestamp".
\<close>

definition RegisterNewMessage :: "int32 \<Rightarrow> Time \<Rightarrow> SegmentMeta \<Rightarrow> SegmentMeta" where
  "RegisterNewMessage n t m =
     m\<lparr>messageNumbers := messageNumbers m @ [n],
       messageTimestamps := messageTimestamps m @ [(n, t)]\<rparr>"

subsection \<open>The filenamer\<close>

text \<open>
  Modelled from the spec: the package \<^verbatim>\<open>filestore/filenamer\<close> is not among the
  sources. Its paths are canonical (spec 4.2 and 6): \<^verbatim>\<open><rootDir>/index\<close> for the index
  file, \<^verbatim>\<open><rootDir>/<topic>\<close> for a topic's directory and
  \<^verbatim>\<open><rootDir>/<topic>/<name>\<close> for a message file. The model keeps no path strings:
  the disk below holds the index file, the topic directories by topic and the message
  files of a directory by name. The one place where two of these paths are the same is
  the topic called \<open>indexFileName\<close>, whose directory has the path of the index file;
  the calls below take it into account. The only field of \<^verbatim>\<open>FileStore\<close> is
  \<^verbatim>\<open>rootDir\<close>; the receiver is represented by the disk below that directory.

  \<^verbatim>\<open>NewMsgFilenameFor(topic, index)\<close> is "derived from a monotonically increasing segment
  sequence number", "independent of message numbering": the decimal numeral of one more
  than the number of segments the index records for the topic.
\<close>

definition indexFileName :: string where
  "indexFileName = ''index''"

fun decimal :: "nat \<Rightarrow> string" where
  "decimal n =
     (if n < 10 then [''0123456789'' ! n]
      else decimal (n div 10) @ [''0123456789'' ! (n mod 10)])"

declare decimal.simps [simp del]

definition NewMsgFilenameFor :: "string \<Rightarrow> Index \<Rightarrow> string" where
  "NewMsgFilenameFor topic index =
     decimal (Suc (length (segments (GetMessageFileListFor topic index))))"

subsection \<open>The disk and its environment\<close>

text \<open>
  The index file is absent, or holds bytes that \<^verbatim>\<open>index.Decode\<close> rejects, or holds the
  encoding of an index. Modelled from the spec: \<^verbatim>\<open>Encode\<close> and \<^verbatim>\<open>Decode\<close> of the absent
  index package are inverse to each other ("encoding then decoding the Index yields an
  identical mapping"), so an encoded index is represented by the index it decodes to.
\<close>

datatype indexFile = NoFile | Undecodable | Encoded Index

record disk =
  indexFile :: indexFile
  topicDirs :: "(string \<times> (string \<times> byte list) list) list"

text \<open>
  The places where the source calls the operating system or a codec, and the entries of
  the root directory that \<^verbatim>\<open>deleteContents\<close> walks over.
\<close>

datatype entry = IndexEntry | TopicEntry string

datatype site =
    OpenIndexForLoad | DecodeIndex | MkdirTopic
  | OpenForStat | StatFile | CreateFile
  | OpenForAppend | WriteMessage
  | OpenIndexForSave | EncodeIndex
  | ReadDir | RemoveAll entry

text \<open>
  What the world outside answers during one call: which calls fail for a reason that the
  disk does not show (\<open>fails\<close>), how many bytes of a write that failed for such a reason
  reached the file (\<open>partialWrite\<close>), whether an encoding that failed for such a reason
  left the index file undecodable (\<open>tornIndex\<close>), and the two readings of the clock.
\<close>

record env =
  fails :: "site \<Rightarrow> bool"
  partialWrite :: nat
  tornIndex :: bool
  nowEncode :: Time
  nowRegister :: Time

text \<open>
  The flags of \<^verbatim>\<open>os.OpenFile\<close>. A file can be written through its descriptor when it
  was opened with \<^verbatim>\<open>O_WRONLY\<close> or \<^verbatim>\<open>O_RDWR\<close>; \<^verbatim>\<open>O_RDONLY\<close> is the value 0, so
  flags that name neither of the two open the file for reading only. \<^verbatim>\<open>os.Open\<close> is
  \<^verbatim>\<open>OpenFile(name, O_RDONLY, 0)\<close>.
\<close>

datatype flag = O_RDONLY | O_WRONLY | O_RDWR | O_APPEND | O_CREATE | O_TRUNC

definition writable :: "flag list \<Rightarrow> bool" where
  "writable flags = (O_WRONLY \<in> set flags \<or> O_RDWR \<in> set flags)"

text \<open>
  Errors. \<open>ENOENT\<close> (no such file or directory), \<open>EEXIST\<close> (it exists already),
  \<open>ENOTDIR\<close> (a file where a directory is needed), \<open>EISDIR\<close> (a directory where a file
  is read), \<open>EBADF\<close> (a write through a descriptor opened for reading only) and
  \<open>BadGob\<close> (the bytes do not decode) are the conditions the disk and the flags decide,
  \<open>EIO\<close> stands for every other failure of a call, and \<open>Errorf\<close> is
  \<^verbatim>\<open>fmt.Errorf("<prefix>: %v", err)\<close>.
\<close>

datatype error = ENOENT | EEXIST | ENOTDIR | EISDIR | EBADF | BadGob | EIO | Errorf string error

definition IsExist :: "error \<Rightarrow> bool" where
  "IsExist err = (err = EEXIST)"

definition filesOf :: "string \<Rightarrow> disk \<Rightarrow> (string \<times> byte list) list option" where
  "filesOf topic d = map_of (topicDirs d) topic"

definition fileContents :: "string \<Rightarrow> string \<Rightarrow> disk \<Rightarrow> byte list option" where
  "fileContents name topic d =
     (case filesOf topic d of None \<Rightarrow> None | Some fs \<Rightarrow> map_of fs name)"

definition putFile :: "string \<Rightarrow> string \<Rightarrow> byte list \<Rightarrow> disk \<Rightarrow> disk" where
  "putFile name topic bytes d =
     (case filesOf topic d of
        None \<Rightarrow> d
      | Some fs \<Rightarrow> d\<lparr>topicDirs := AList.update topic (AList.update name bytes fs) (topicDirs d)\<rparr>)"

text \<open>
  The index file stands where the directory of the topic \<open>indexFileName\<close> would be.
\<close>

definition indexFileInTheWay :: "string \<Rightarrow> disk \<Rightarrow> bool" where
  "indexFileInTheWay topic d = (topic = indexFileName \<and> indexFile d \<noteq> NoFile)"

text \<open>
  \<^verbatim>\<open>os.Mkdir\<close> of a topic's directory: \<open>EEXIST\<close> when the path exists, as a directory
  or as the index file.
\<close>

definition Mkdir :: "string \<Rightarrow> env \<Rightarrow> disk \<Rightarrow> error option \<times> disk" where
  "Mkdir topic e d =
     (if fails e MkdirTopic then (Some EIO, d)
      else case filesOf topic d of
             Some fs \<Rightarrow> (Some EEXIST, d)
           | None \<Rightarrow>
               if indexFileInTheWay topic d then (Some EEXIST, d)
               else (None, d\<lparr>topicDirs := AList.update topic [] (topicDirs d)\<rparr>))"

text \<open>What a call gets that looks for a file in a topic's directory that is not there.\<close>

definition noDirectory :: "string \<Rightarrow> disk \<Rightarrow> error" where
  "noDirectory topic d = (if indexFileInTheWay topic d then ENOTDIR else ENOENT)"

text \<open>
  \<^verbatim>\<open>os.Create\<close> of a message file (\<^verbatim>\<open>O_RDWR|O_CREATE|O_TRUNC\<close>): the file is created,
  or cut to length 0 when it exists; the directory has to exist.
\<close>

definition Create :: "string \<Rightarrow> string \<Rightarrow> env \<Rightarrow> disk \<Rightarrow> error option \<times> disk" where
  "Create name topic e d =
     (if fails e CreateFile then (Some EIO, d)
      else if filesOf topic d = None then (Some (noDirectory topic d), d)
      else (None, putFile name topic [] d))"

text \<open>
  \<^verbatim>\<open>os.Open\<close> and \<^verbatim>\<open>os.OpenFile\<close> without \<^verbatim>\<open>O_CREATE\<close> create nothing: the path has
  to exist. At the path of the index file there may be a directory instead (that of
  the topic \<open>indexFileName\<close>), which opens like a file.
\<close>

definition OpenIndex :: "site \<Rightarrow> env \<Rightarrow> disk \<Rightarrow> error option" where
  "OpenIndex at e d =
     (if fails e at then Some EIO
      else if indexFile d = NoFile \<and> filesOf indexFileName d = None then Some ENOENT
      else None)"

definition OpenMsgFile :: "site \<Rightarrow> string \<Rightarrow> string \<Rightarrow> env \<Rightarrow> disk \<Rightarrow> error + byte list" where
  "OpenMsgFile at name topic e d =
     (if fails e at then Inl EIO
      else case fileContents name topic d of
             None \<Rightarrow> Inl (if filesOf topic d = None then noDirectory topic d else ENOENT)
           | Some bytes \<Rightarrow> Inr bytes)"

text \<open>
  \<^verbatim>\<open>index.Decode(file)\<close> and \<^verbatim>\<open>index.Encode(file)\<close> on the opened index file. The
  encoder writes through the descriptor, so it needs one that can be written; the flags
  are those the file was opened with.
\<close>

definition Decode :: "env \<Rightarrow> disk \<Rightarrow> error + Index" where
  "Decode e d =
     (if fails e DecodeIndex then Inl EIO
      else case indexFile d of
             Encoded index \<Rightarrow> Inr index
           | Undecodable \<Rightarrow> Inl BadGob
           | NoFile \<Rightarrow> Inl EISDIR)"

definition Encode :: "flag list \<Rightarrow> Index \<Rightarrow> env \<Rightarrow> disk \<Rightarrow> error option \<times> disk" where
  "Encode flags index e d =
     (if \<not> writable flags then (Some EBADF, d)
      else if fails e EncodeIndex
      then (Some EIO, if tornIndex e then d\<lparr>indexFile := Undecodable\<rparr> else d)
      else (None, d\<lparr>indexFile := Encoded index\<rparr>))"

text \<open>
  \<^verbatim>\<open>file.Write\<close> on an opened message file whose contents are \<open>old\<close>. Through a
  descriptor that cannot be written the system refuses the write with \<open>EBADF\<close> and the
  file stays as it is. Otherwise the bytes go to the end of the file, and a write that
  fails may leave some of them there.
\<close>

definition Write ::
  "flag list \<Rightarrow> string \<Rightarrow> string \<Rightarrow> byte list \<Rightarrow> byte list \<Rightarrow> env \<Rightarrow> disk \<Rightarrow> error option \<times> disk" where
  "Write flags name topic old bytes e d =
     (if \<not> writable flags then (Some EBADF, d)
      else if fails e WriteMessage
      then (Some EIO, putFile name topic (old @ take (partialWrite e) bytes) d)
      else (None, putFile name topic (old @ bytes) d))"

text \<open>\<^verbatim>\<open>os.RemoveAll\<close> of one entry of the root directory.\<close>

definition RemoveAllOf :: "entry \<Rightarrow> env \<Rightarrow> disk \<Rightarrow> error option \<times> disk" where
  "RemoveAllOf x e d =
     (if fails e (RemoveAll x) then (Some EIO, d)
      else (None, case x of
                    IndexEntry \<Rightarrow> d\<lparr>indexFile := NoFile\<rparr>
                  | TopicEntry topic \<Rightarrow> d\<lparr>topicDirs := AList.delete topic (topicDirs d)\<rparr>))"

text \<open>
  The listing \<^verbatim>\<open>ioutil.ReadDir\<close> gives of the root directory: the index file when
  there is one, and the topic directories. (The order of a real listing is by name; it
  decides only which entries are gone when a removal fails.)
\<close>

definition dirEntries :: "disk \<Rightarrow> entry list" where
  "dirEntries d =
     (case indexFile d of NoFile \<Rightarrow> [] | _ \<Rightarrow> [IndexEntry]) @ map (\<lambda>p. TopicEntry (fst p)) (topicDirs d)"

subsection \<open>The helper functions of filestore.go\<close>

text \<open>
  The functions follow the source line by line. \<open>saveIndex\<close> opens the index file with
  \<^verbatim>\<open>os.Open\<close>, and \<open>saveAndRegisterMessage\<close> opens the message file with
  \<^verbatim>\<open>os.OpenFile(filePath, os.O_APPEND, 0666)\<close>: the flags of these two calls are passed
  on to the encoder and to the write. Where the source has a slip of the pen
  that does not change what is meant, the evident reading is taken: the error return of
  \<^verbatim>\<open>setupNewFileForTopic\<close> (\<^verbatim>\<open>return false, fmt.Errorf(...)\<close>) returns the error, and
  \<^verbatim>\<open>filePath\<close> in \<^verbatim>\<open>saveAndRegisterMessage\<close> is the \<^verbatim>\<open>filepath\<close> computed on the
  line before.
\<close>

definition maximumFileSize :: int where
  "maximumFileSize = 1048576"

fun removeEntries :: "entry list \<Rightarrow> env \<Rightarrow> disk \<Rightarrow> error option \<times> disk" where
  "removeEntries [] e d = (None, d)"
| "removeEntries (x # xs) e d =
     (case RemoveAllOf x e d of
        (Some err, d') \<Rightarrow> (Some (Errorf ''os.RemoveAll()'' err), d')
      | (None, d') \<Rightarrow> removeEntries xs e d')"

definition deleteContents :: "env \<Rightarrow> disk \<Rightarrow> error option \<times> disk" where
  "deleteContents e d =
     (if fails e ReadDir then (Some (Errorf ''ioutil.ReadDir()'' EIO), d)
      else removeEntries (dirEntries d) e d)"

definition retrieveIndexFromDisk :: "env \<Rightarrow> disk \<Rightarrow> error + Index" where
  "retrieveIndexFromDisk e d =
     (case OpenIndex OpenIndexForLoad e d of
        Some err \<Rightarrow> Inl (Errorf ''os.Open()'' err)
      | None \<Rightarrow>
          (case Decode e d of
             Inl err \<Rightarrow> Inl (Errorf ''index.Decode()'' err)
           | Inr index \<Rightarrow> Inr index))"

definition saveIndex :: "Index \<Rightarrow> env \<Rightarrow> disk \<Rightarrow> error option \<times> disk" where
  "saveIndex index e d =
     (case OpenIndex OpenIndexForSave e d of
        Some err \<Rightarrow> (Some (Errorf ''os.Open()'' err), d)
      | None \<Rightarrow>
          (case Encode [O_RDONLY] index e d of
             (Some err, d') \<Rightarrow> (Some (Errorf ''index.Encode()'' err), d')
           | (None, d') \<Rightarrow> (None, d')))"

definition makeMsgToStore :: "Message \<Rightarrow> int32 \<Rightarrow> env \<Rightarrow> byte list" where
  "makeMsgToStore msg msgNumber e =
     gobEncode \<lparr>message = msg, creationTime = nowEncode e, messageNumber = msgNumber\<rparr>"

definition createTopicDirIfNotExists :: "string \<Rightarrow> env \<Rightarrow> disk \<Rightarrow> error option \<times> disk" where
  "createTopicDirIfNotExists topic e d =
     (case Mkdir topic e d of
        (None, d') \<Rightarrow> (None, d')
      | (Some err, d') \<Rightarrow>
          if IsExist err then (None, d')
          else (Some (Errorf ''os.Mkdir()'' err), d'))"

definition fileHasInsufficentRoom :: "string \<Rightarrow> string \<Rightarrow> nat \<Rightarrow> env \<Rightarrow> disk \<Rightarrow> error + bool" where
  "fileHasInsufficentRoom msgFileName topic msgSize e d =
     (case OpenMsgFile OpenForStat msgFileName topic e d of
        Inl err \<Rightarrow> Inl (Errorf ''os.Open()'' err)
      | Inr bytes \<Rightarrow>
          if fails e StatFile then Inl (Errorf ''file.Stat()'' EIO)
          else Inr (int (length bytes) + int msgSize > maximumFileSize))"

definition setupNewFileForTopic ::
  "string \<Rightarrow> Index \<Rightarrow> env \<Rightarrow> disk \<Rightarrow> (error + string) \<times> Index \<times> disk" where
  "setupNewFileForTopic topic index e d =
     (let name = NewMsgFilenameFor topic index
      in case Create name topic e d of
           (Some err, d') \<Rightarrow> (Inl (Errorf ''os.Create()'' err), index, d')
         | (None, d') \<Rightarrow>
             (Inr name,
              putEntry topic (RegisterNewFile name (GetMessageFileListFor topic index)) index,
              d'))"

text \<open>
  \<^verbatim>\<open>msgFileList.Meta[msgFileName]\<close> is the metadata of the segment with that file name;
  in \<open>store\<close> the name is always one the index has registered.
\<close>

definition registerIn :: "string \<Rightarrow> int32 \<Rightarrow> Time \<Rightarrow> TopicIndexEntry \<Rightarrow> TopicIndexEntry" where
  "registerIn msgFileName msgNumber t entry =
     entry\<lparr>segments :=
       map (\<lambda>m. if fileName m = msgFileName then RegisterNewMessage msgNumber t m else m)
         (segments entry)\<rparr>"

definition saveAndRegisterMessage ::
  "string \<Rightarrow> string \<Rightarrow> byte list \<Rightarrow> int32 \<Rightarrow> Index \<Rightarrow> env \<Rightarrow> disk \<Rightarrow> error option \<times> Index \<times> disk" where
  "saveAndRegisterMessage msgFileName topic msgToStore msgNumber index e d =
     (case OpenMsgFile OpenForAppend msgFileName topic e d of
        Inl err \<Rightarrow> (Some (Errorf ''os.OpenFile()'' err), index, d)
      | Inr old \<Rightarrow>
          (case Write [O_APPEND] msgFileName topic old msgToStore e d of
             (Some err, d') \<Rightarrow> (Some (Errorf ''file.Write()'' err), index, d')
           | (None, d') \<Rightarrow>
               (None,
                putEntry topic
                  (registerIn msgFileName msgNumber (nowRegister e)
                     (GetMessageFileListFor topic index)) index,
                d')))"

text \<open>
  \<open>store\<close> returns Go's pair \<^verbatim>\<open>(messageNumber, err)\<close>, with \<open>None\<close> for \<^verbatim>\<open>nil\<close>, and
  the disk it leaves. The index is loaded once and changed in memory (\<open>index1\<close>,
  \<open>index2\<close>, \<open>index3\<close> are the index after each change); only \<open>saveIndex\<close> would write
  it back.
\<close>

definition store :: "string \<Rightarrow> Message \<Rightarrow> env \<Rightarrow> disk \<Rightarrow> (int \<times> error option) \<times> disk" where
  "store topic msg e d =
     (case retrieveIndexFromDisk e d of
        Inl err \<Rightarrow> ((- 1, Some (Errorf ''RetrieveIndexFromDisk()'' err)), d)
      | Inr index \<Rightarrow>
     (case createTopicDirIfNotExists topic e d of
        (Some err, d1) \<Rightarrow> ((- 1, Some (Errorf ''createTopicDirIfNotExists'' err)), d1)
      | (None, d1) \<Rightarrow>
     (case NextMessageNumberFor topic index of (msgNumber, index1) \<Rightarrow>
     (let msgToStore = makeMsgToStore msg msgNumber e;
          msgSize = length msgToStore;
          msgFileName = CurrentMsgFileNameFor topic index1
      in
     (case (if msgFileName = [] then Inr True
            else fileHasInsufficentRoom msgFileName topic msgSize e d1) of
        Inl err \<Rightarrow> ((- 1, Some (Errorf ''fileHasInsufficietRoom()'' err)), d1)
      | Inr needNewFile \<Rightarrow>
     (case (if needNewFile then setupNewFileForTopic topic index1 e d1
            else (Inr msgFileName, index1, d1)) of
        (Inl err, index2, d2) \<Rightarrow> ((- 1, Some (Errorf ''setupNewFileForTopic()'' err)), d2)
      | (Inr msgFileName', index2, d2) \<Rightarrow>
     (case saveAndRegisterMessage msgFileName' topic msgToStore msgNumber index2 e d2 of
        (Some err, index3, d3) \<Rightarrow> ((- 1, Some (Errorf ''saveAndRegisterMessage()'' err)), d3)
      | (None, index3, d3) \<Rightarrow>
     (case saveIndex index3 e d3 of
        (Some err, d4) \<Rightarrow> ((- 1, Some (Errorf ''saveIndex()'' err)), d4)
      | (None, d4) \<Rightarrow> ((sint msgNumber, None), d4)))))))))"

subsection \<open>The methods of the BackingStore interface\<close>

text \<open>
  The package-level \<^verbatim>\<open>mutex\<close> is shared by every method. The model keeps the history
  of the operations performed on it next to the disk: \<^verbatim>\<open>mutex.Lock()\<close> adds \<open>Lock\<close> when
  the method starts and the deferred \<^verbatim>\<open>mutex.Unlock()\<close> adds \<open>Unlock\<close> when it returns.
\<close>

datatype mutexOp = Lock | Unlock

record world =
  disk :: disk
  mutexOps :: "mutexOp list"

definition DeleteContents :: "env \<Rightarrow> world \<Rightarrow> error option \<times> world" where
  "DeleteContents e w =
     (let w1 = w\<lparr>mutexOps := mutexOps w @ [Lock]\<rparr>
      in case deleteContents e (disk w1) of
           (r, d') \<Rightarrow> (r, w1\<lparr>disk := d', mutexOps := mutexOps w1 @ [Unlock]\<rparr>))"

definition Store :: "string \<Rightarrow> Message \<Rightarrow> env \<Rightarrow> world \<Rightarrow> (int \<times> error option) \<times> world" where
  "Store topic msg e w =
     (let w1 = w\<lparr>mutexOps := mutexOps w @ [Lock]\<rparr>
      in case store topic msg e (disk w1) of
           (r, d') \<Rightarrow> (r, w1\<lparr>disk := d', mutexOps := mutexOps w1 @ [Unlock]\<rparr>))"

definition RemoveOldMessages :: "Time \<Rightarrow> world \<Rightarrow> (int \<times> error option) \<times> world" where
  "RemoveOldMessages maxAge w = ((- 1, None), w)"

definition Poll :: "string \<Rightarrow> int \<Rightarrow> world \<Rightarrow> (Message list \<times> int \<times> error option) \<times> world" where
  "Poll topic readFrom w = (([], 11, None), w)"

subsection \<open>Sequences of calls\<close>


subsection \<open>Notions used in the statements\<close>

text \<open>
  The numbers returned by the successful calls on one topic, in call order, given the calls
  and their results.
\<close>

definition successesOn ::
  "string \<Rightarrow> (string \<times> Message \<times> env) list \<Rightarrow> (int \<times> error option) list \<Rightarrow> int list" where
  "successesOn topic calls results =
     map (\<lambda>(c, r). fst r)
       (filter (\<lambda>(c, r). fst c = topic \<and> snd r = None) (zip calls results))"

subsection \<open>Concrete stores and environments\<close>

text \<open>
  The environment in which no call fails for a reason from outside, and the one in which
  exactly the call at one site does.
\<close>

definition quietEnv :: env where
  "quietEnv = \<lparr>fails = (\<lambda>_. False), partialWrite = 0, tornIndex = False,
                nowEncode = 5, nowRegister = 6\<rparr>"

definition failingAt :: "site \<Rightarrow> env" where
  "failingAt x = quietEnv\<lparr>fails := (\<lambda>s. s = x)\<rparr>"

text \<open>
  A store whose index file holds an empty index; a root directory with nothing in it; a
  store whose index file does not decode; a store with one message file of topic
  \<open>''t''\<close> that the index knows; the same with the message file full to the last byte;
  the store after its contents have been deleted.
\<close>

definition freshWorld :: world where
  "freshWorld = \<lparr>disk = \<lparr>indexFile = Encoded NewIndex, topicDirs = []\<rparr>, mutexOps = []\<rparr>"

definition blankWorld :: world where
  "blankWorld = \<lparr>disk = \<lparr>indexFile = NoFile, topicDirs = []\<rparr>, mutexOps = []\<rparr>"

definition corruptWorld :: world where
  "corruptWorld = \<lparr>disk = \<lparr>indexFile = Undecodable, topicDirs = [(''t'', [(''1'', [9])])]\<rparr>,
                    mutexOps = []\<rparr>"

definition stockedIndex :: Index where
  "stockedIndex = [(''t'', \<lparr>nextMessageNumber = 1,
                     segments = [\<lparr>fileName = ''1'', messageNumbers = [0],
                                  messageTimestamps = [(0, 4)]\<rparr>]\<rparr>)]"

definition stockedWorld :: world where
  "stockedWorld =
     \<lparr>disk = \<lparr>indexFile = Encoded stockedIndex, topicDirs = [(''t'', [(''1'', [9])])]\<rparr>,
      mutexOps = []\<rparr>"

definition fullWorld :: world where
  "fullWorld =
     \<lparr>disk = \<lparr>indexFile = Encoded stockedIndex,
              topicDirs = [(''t'', [(''1'', replicate 1048576 7)])]\<rparr>,
      mutexOps = []\<rparr>"


text \<open>A message of more than 1 MiB, and two calls on one topic.\<close>

definition hugeMessage :: Message where
  "hugeMessage = replicate 1048577 0"


section \<open>Properties\<close>

subsection \<open>Unfolding a call\<close>

lemma Mkdir_alt:
  "Mkdir topic e d =
     (if fails e MkdirTopic then (Some EIO, d)
      else if filesOf topic d \<noteq> None \<or> indexFileInTheWay topic d then (Some EEXIST, d)
      else (None, d\<lparr>topicDirs := AList.update topic [] (topicDirs d)\<rparr>))"
  by (simp add: Mkdir_def split: option.splits)

lemmas run_defs = store_def retrieveIndexFromDisk_def OpenIndex_def Decode_def NewIndex_def
  createTopicDirIfNotExists_def Mkdir_alt filesOf_def IsExist_def indexFileInTheWay_def
  noDirectory_def indexFileName_def writable_def gobEncode_def
  NextMessageNumberFor_def GetMessageFileListFor_def putEntry_def originMessageNumber_def
  makeMsgToStore_def CurrentMsgFileNameFor_def fileHasInsufficentRoom_def maximumFileSize_def
  setupNewFileForTopic_def NewMsgFilenameFor_def decimal.simps Create_def putFile_def
  saveAndRegisterMessage_def OpenMsgFile_def fileContents_def Write_def registerIn_def
  RegisterNewFile_def RegisterNewMessage_def saveIndex_def Encode_def Let_def

lemma Store_store:
  "Store topic msg e w =
     (fst (store topic msg e (disk w)),
      \<lparr>disk = snd (store topic msg e (disk w)), mutexOps = mutexOps w @ [Lock, Unlock]\<rparr>)"
  by (simp add: Store_def Let_def split: prod.splits)

lemmas world_defs = Store_store quietEnv_def failingAt_def freshWorld_def blankWorld_def
  corruptWorld_def stockedWorld_def stockedIndex_def fullWorld_def successesOn_def

text \<open>
  Every way through \<open>store\<close>: the six places where it gives up, in the order of the
  source, and the one where it returns the number.
\<close>

lemma store_cases [consumes 1, case_names loadFail dirFail roomFail setupFail writeFail saveFail ok]:
  assumes "store topic msg e d = (r, d')"
  obtains
    err where "retrieveIndexFromDisk e d = Inl err"
      "r = (- 1, Some (Errorf ''RetrieveIndexFromDisk()'' err))" "d' = d"
  | index err where "retrieveIndexFromDisk e d = Inr index"
      "createTopicDirIfNotExists topic e d = (Some err, d')"
      "r = (- 1, Some (Errorf ''createTopicDirIfNotExists'' err))"
  | index d1 msgNumber index1 err where "retrieveIndexFromDisk e d = Inr index"
      "createTopicDirIfNotExists topic e d = (None, d1)"
      "NextMessageNumberFor topic index = (msgNumber, index1)"
      "CurrentMsgFileNameFor topic index1 \<noteq> []"
      "fileHasInsufficentRoom (CurrentMsgFileNameFor topic index1) topic
         (length (makeMsgToStore msg msgNumber e)) e d1 = Inl err"
      "r = (- 1, Some (Errorf ''fileHasInsufficietRoom()'' err))" "d' = d1"
  | index d1 msgNumber index1 index2 err where "retrieveIndexFromDisk e d = Inr index"
      "createTopicDirIfNotExists topic e d = (None, d1)"
      "NextMessageNumberFor topic index = (msgNumber, index1)"
      "setupNewFileForTopic topic index1 e d1 = (Inl err, index2, d')"
      "r = (- 1, Some (Errorf ''setupNewFileForTopic()'' err))"
  | index d1 msgNumber index1 needNewFile name index2 d2 err index3 where "retrieveIndexFromDisk e d = Inr index"
      "createTopicDirIfNotExists topic e d = (None, d1)"
      "NextMessageNumberFor topic index = (msgNumber, index1)"
      "(if CurrentMsgFileNameFor topic index1 = [] then Inr True
        else fileHasInsufficentRoom (CurrentMsgFileNameFor topic index1) topic
               (length (makeMsgToStore msg msgNumber e)) e d1) = Inr needNewFile"
      "(if needNewFile then setupNewFileForTopic topic index1 e d1
        else (Inr (CurrentMsgFileNameFor topic index1), index1, d1)) = (Inr name, index2, d2)"
      "saveAndRegisterMessage name topic (makeMsgToStore msg msgNumber e) msgNumber index2 e d2
         = (Some err, index3, d')"
      "r = (- 1, Some (Errorf ''saveAndRegisterMessage()'' err))"
  | index d1 msgNumber index1 needNewFile name index2 d2 err index3 d3 where "retrieveIndexFromDisk e d = Inr index"
      "createTopicDirIfNotExists topic e d = (None, d1)"
      "NextMessageNumberFor topic index = (msgNumber, index1)"
      "(if CurrentMsgFileNameFor topic index1 = [] then Inr True
        else fileHasInsufficentRoom (CurrentMsgFileNameFor topic index1) topic
               (length (makeMsgToStore msg msgNumber e)) e d1) = Inr needNewFile"
      "(if needNewFile then setupNewFileForTopic topic index1 e d1
        else (Inr (CurrentMsgFileNameFor topic index1), index1, d1)) = (Inr name, index2, d2)"
      "saveAndRegisterMessage name topic (makeMsgToStore msg msgNumber e) msgNumber index2 e d2
         = (None, index3, d3)"
      "saveIndex index3 e d3 = (Some err, d')"
      "r = (- 1, Some (Errorf ''saveIndex()'' err))"
  | index d1 msgNumber index1 needNewFile name index2 d2 index3 d3 where "retrieveIndexFromDisk e d = Inr index"
      "createTopicDirIfNotExists topic e d = (None, d1)"
      "NextMessageNumberFor topic index = (msgNumber, index1)"
      "(if CurrentMsgFileNameFor topic index1 = [] then Inr True
        else fileHasInsufficentRoom (CurrentMsgFileNameFor topic index1) topic
               (length (makeMsgToStore msg msgNumber e)) e d1) = Inr needNewFile"
      "(if needNewFile then setupNewFileForTopic topic index1 e d1
        else (Inr (CurrentMsgFileNameFor topic index1), index1, d1)) = (Inr name, index2, d2)"
      "saveAndRegisterMessage name topic (makeMsgToStore msg msgNumber e) msgNumber index2 e d2
         = (None, index3, d3)"
      "saveIndex index3 e d3 = (None, d')"
      "r = (sint msgNumber, None)"
proof (cases "retrieveIndexFromDisk e d")
  case (Inl err)
  with assms have "r = (- 1, Some (Errorf ''RetrieveIndexFromDisk()'' err))" "d' = d"
    by (auto simp: store_def)
  with Inl show thesis by (rule that(1))
next
  case (Inr index)
  obtain r1 d1 where cd: "createTopicDirIfNotExists topic e d = (r1, d1)"
    by force
  show thesis
  proof (cases r1)
    case (Some err)
    with assms Inr cd have "r = (- 1, Some (Errorf ''createTopicDirIfNotExists'' err))" "d' = d1"
      by (auto simp: store_def)
    with Inr cd Some show thesis using that(2) by blast
  next
    case None
    obtain msgNumber index1 where nx: "NextMessageNumberFor topic index = (msgNumber, index1)"
      by force
    let ?bytes = "makeMsgToStore msg msgNumber e"
    let ?cur = "CurrentMsgFileNameFor topic index1"
    let ?room = "if ?cur = [] then Inr True
                 else fileHasInsufficentRoom ?cur topic (length ?bytes) e d1"
    note pre = Inr cd[unfolded None] nx
    show thesis
    proof (cases ?room)
      case (Inl err)
      then have 1: "?cur \<noteq> []" and 2: "fileHasInsufficentRoom ?cur topic (length ?bytes) e d1 = Inl err"
        by (auto split: if_splits)
      from assms pre Inl have "r = (- 1, Some (Errorf ''fileHasInsufficietRoom()'' err))" "d' = d1"
        by (auto simp: store_def Let_def)
      with pre 1 2 show thesis using that(3) by blast
    next
      case room: (Inr need)
      obtain x index2 d2 where st:
        "(if need then setupNewFileForTopic topic index1 e d1 else (Inr ?cur, index1, d1))
           = (x, index2, d2)"
        by (metis prod_cases3)
      show thesis
      proof (cases x)
        case (Inl err)
        with st have 1: "setupNewFileForTopic topic index1 e d1 = (Inl err, index2, d2)"
          by (auto split: if_splits)
        from assms pre room st Inl have "r = (- 1, Some (Errorf ''setupNewFileForTopic()'' err))" "d' = d2"
          by (auto simp: store_def Let_def)
        with pre 1 show thesis using that(4) by blast
      next
        case (Inr name)
        note 1 = room st[unfolded Inr]
        obtain r3 index3 d3 where sr:
          "saveAndRegisterMessage name topic ?bytes msgNumber index2 e d2 = (r3, index3, d3)"
          by (metis prod_cases3)
        show thesis
        proof (cases r3)
          case (Some err)
          from assms pre room st Inr sr Some
          have "r = (- 1, Some (Errorf ''saveAndRegisterMessage()'' err))" "d' = d3"
            by (auto simp: store_def Let_def)
          with pre 1 sr Some show thesis using that(5) by blast
        next
          case None
          obtain r4 d4 where si: "saveIndex index3 e d3 = (r4, d4)"
            by force
          show thesis
          proof (cases r4)
            case (Some err)
            from assms pre room st Inr sr None si Some
            have "r = (- 1, Some (Errorf ''saveIndex()'' err))" "d' = d4"
              by (auto simp: store_def Let_def)
            with pre 1 sr None si Some show thesis using that(6) by blast
          next
            case n4: None
            from assms pre room st Inr sr None si n4
            have "r = (sint msgNumber, None)" "d' = d4"
              by (auto simp: store_def Let_def)
            with pre 1 sr None si n4 show thesis using that(7) by blast
          qed
        qed
      qed
    qed
  qed
qed

subsection \<open>The steps of a call\<close>

lemma indexFile_putFile [simp]: "indexFile (putFile name topic bytes d) = indexFile d"
  by (simp add: putFile_def split: option.splits)

lemma createTopicDir_index:
  "createTopicDirIfNotExists topic e d = (r, d1) \<Longrightarrow> indexFile d1 = indexFile d"
  by (auto simp: createTopicDirIfNotExists_def Mkdir_alt split: if_splits option.splits prod.splits)

lemma setup_index:
  "setupNewFileForTopic topic index e d = (r, index2, d2) \<Longrightarrow> indexFile d2 = indexFile d"
  by (auto simp: setupNewFileForTopic_def Create_def Let_def split: if_splits option.splits prod.splits)

text \<open>
  The write of \<open>saveAndRegisterMessage\<close> goes through a descriptor opened with
  \<^verbatim>\<open>O_APPEND\<close> alone: the function never returns without an error and never changes
  the disk.
\<close>

lemma saveReg_refused:
  "saveAndRegisterMessage name topic bytes n index e d = (r, index3, d3) \<Longrightarrow>
     r \<noteq> None \<and> index3 = index \<and> d3 = d"
  by (auto simp: saveAndRegisterMessage_def OpenMsgFile_def Write_def writable_def
           split: if_splits option.splits sum.splits)

lemma retrieve_fails:
  "indexFile d = NoFile \<or> indexFile d = Undecodable \<or> fails e OpenIndexForLoad \<or> fails e DecodeIndex
     \<Longrightarrow> \<exists>err. retrieveIndexFromDisk e d = Inl err"
  by (auto simp: retrieveIndexFromDisk_def OpenIndex_def Decode_def)

lemma store_fails:
  assumes "store topic msg e d = ((n, r), d')"
  shows "n = - 1 \<and> r \<noteq> None \<and> indexFile d' = indexFile d"
  using assms
proof (cases rule: store_cases)
  case (writeFail index d1 msgNumber index1 needNewFile name index2 d2 err index3)
  from saveReg_refused[OF writeFail(6)] have "d' = d2" by simp
  with writeFail show ?thesis
    by (auto simp add: createTopicDir_index setup_index split: if_splits)
next
  case (saveFail index d1 msgNumber index1 needNewFile name index2 d2 err index3 d3)
  from saveReg_refused[OF saveFail(6)] show ?thesis by simp
next
  case (ok index d1 msgNumber index1 needNewFile name index2 d2 index3 d3)
  from saveReg_refused[OF ok(6)] show ?thesis by simp
qed (simp_all add: createTopicDir_index setup_index)


lemma store_error_tags:
  assumes "store topic msg e d = ((n, Some err), d')"
  shows "n = - 1 \<and> (\<exists>p c. err = Errorf p c \<and>
           p \<in> set [''RetrieveIndexFromDisk()'', ''createTopicDirIfNotExists'',
                    ''fileHasInsufficietRoom()'', ''setupNewFileForTopic()'',
                    ''saveAndRegisterMessage()'', ''saveIndex()''])"
  using assms by (cases rule: store_cases) simp_all



subsection \<open>Message files\<close>

lemma createTopicDir_contents:
  "createTopicDirIfNotExists topic e d = (r, d1) \<Longrightarrow>
     fileContents x t d1 = fileContents x t d"
  by (auto simp: createTopicDirIfNotExists_def Mkdir_alt fileContents_def filesOf_def update_conv'
           split: if_splits)

lemma fileContents_putFile_empty:
  "fileContents x t (putFile name topic [] d) \<in> {fileContents x t d, Some []}"
  by (auto simp: fileContents_def putFile_def filesOf_def update_conv' split: option.splits)

lemma setup_contents:
  "setupNewFileForTopic topic index e d = (r, index2, d2) \<Longrightarrow>
     fileContents x t d2 \<in> {fileContents x t d, Some []}"
  using fileContents_putFile_empty[of x t "NewMsgFilenameFor topic index" topic d]
  by (auto simp: setupNewFileForTopic_def Create_def Let_def split: if_splits)

lemma store_contents:
  assumes "store topic msg e d = (r, d')"
  shows "fileContents x t d' \<in> {fileContents x t d, Some []}"
  using assms
proof (cases rule: store_cases)
  case (loadFail err)
  then show ?thesis by simp
next
  case (dirFail index err)
  then show ?thesis by (simp add: createTopicDir_contents)
next
  case (roomFail index d1 msgNumber index1 err)
  then show ?thesis by (simp add: createTopicDir_contents)
next
  case (setupFail index d1 msgNumber index1 index2 err)
  from setup_contents[OF setupFail(4)] createTopicDir_contents[OF setupFail(2)]
  show ?thesis by simp
next
  case (writeFail index d1 msgNumber index1 needNewFile name index2 d2 err index3)
  from saveReg_refused[OF writeFail(6)] have eq: "d' = d2" by simp
  show ?thesis
  proof (cases needNewFile)
    case True
    with writeFail(5) have "setupNewFileForTopic topic index1 e d1 = (Inr name, index2, d2)"
      by simp
    from setup_contents[OF this] createTopicDir_contents[OF writeFail(2)] eq
    show ?thesis by simp
  next
    case False
    with writeFail(5) have "d2 = d1" by simp
    with createTopicDir_contents[OF writeFail(2)] eq show ?thesis by simp
  qed
next
  case (saveFail index d1 msgNumber index1 needNewFile name index2 d2 err index3 d3)
  from saveReg_refused[OF saveFail(6)] show ?thesis by simp
next
  case (ok index d1 msgNumber index1 needNewFile name index2 d2 index3 d3)
  from saveReg_refused[OF ok(6)] show ?thesis by simp
qed


subsection \<open>Deleting the contents\<close>



subsection \<open>The claims\<close>


text \<open>
  C2 (code defect). The contract asks \<open>Poll\<close> for the messages of the topic numbered
  \<open>readFrom\<close> or above and for the number to read from next. \<open>Poll\<close> of the file store
  reads nothing: for every topic, every \<open>readFrom\<close> and every store it returns no
  message and the constant 11 as the new read-from number.
\<close>

theorem Poll_returns_nothing_and_eleven:
  "Poll topic readFrom w = (([], 11, None), w)"
  by (simp add: Poll_def)

text \<open>
  C3 (code defect). The contract asks \<open>RemoveOldMessages\<close> to remove the messages stored
  before the given time and to report their numbers by topic. \<open>RemoveOldMessages\<close> of
  the file store removes nothing and reports the number -1: the store, index file and
  message files included, is the same after the call, whatever the cutoff.
\<close>

theorem RemoveOldMessages_removes_nothing:
  "RemoveOldMessages maxAge w = ((- 1, None), w)"
  by (simp add: RemoveOldMessages_def)

text \<open>
  C4 (code defect). \<open>Store\<close> chooses the message file as the claim says and creates a new
  one when the topic has no active file or the active file has no room, but it appends
  to neither: the write through the descriptor opened with \<^verbatim>\<open>os.O_APPEND\<close> alone is
  refused. After a call every message file is as it was before or is empty. A message of
  more than 1 MiB stored into a topic without files leaves the new file \<open>''1''\<close> empty;
  a message stored into a topic whose file \<open>''1''\<close> is full leaves a new, empty file
  \<open>''2''\<close> beside it; a message stored into a topic whose file has room leaves the file
  as it was. Each of the three calls returns -1 with the error of \<^verbatim>\<open>file.Write\<close>.
\<close>

theorem Store_appends_nothing:
  "fileContents name t (disk (snd (Store topic msg e w))) \<in>
     {fileContents name t (disk w), Some []} \<and>
   fst (Store ''t'' hugeMessage quietEnv freshWorld) =
     (- 1, Some (Errorf ''saveAndRegisterMessage()'' (Errorf ''file.Write()'' EBADF))) \<and>
   topicDirs (disk (snd (Store ''t'' hugeMessage quietEnv freshWorld))) = [(''t'', [(''1'', [])])] \<and>
   fst (Store ''t'' [1] quietEnv fullWorld) =
     (- 1, Some (Errorf ''saveAndRegisterMessage()'' (Errorf ''file.Write()'' EBADF))) \<and>
   topicDirs (disk (snd (Store ''t'' [1] quietEnv fullWorld))) =
     [(''t'', [(''1'', replicate 1048576 7), (''2'', [])])] \<and>
   fst (Store ''t'' [1] quietEnv stockedWorld) =
     (- 1, Some (Errorf ''saveAndRegisterMessage()'' (Errorf ''file.Write()'' EBADF))) \<and>
   topicDirs (disk (snd (Store ''t'' [1] quietEnv stockedWorld))) = [(''t'', [(''1'', [9])])]"
proof -
  have "fileContents name t (disk (snd (Store topic msg e w))) \<in>
     {fileContents name t (disk w), Some []}"
    using store_contents[of topic msg e "disk w" "fst (store topic msg e (disk w))"
        "snd (store topic msg e (disk w))" name t]
    by (simp add: Store_store)
  moreover have "fst (Store ''t'' hugeMessage quietEnv freshWorld) =
     (- 1, Some (Errorf ''saveAndRegisterMessage()'' (Errorf ''file.Write()'' EBADF)))"
    "topicDirs (disk (snd (Store ''t'' hugeMessage quietEnv freshWorld))) = [(''t'', [(''1'', [])])]"
    by (simp_all add: hugeMessage_def world_defs run_defs)
  moreover have "fst (Store ''t'' [1] quietEnv fullWorld) =
     (- 1, Some (Errorf ''saveAndRegisterMessage()'' (Errorf ''file.Write()'' EBADF)))"
    "topicDirs (disk (snd (Store ''t'' [1] quietEnv fullWorld))) =
       [(''t'', [(''1'', replicate 1048576 7), (''2'', [])])]"
    by (simp_all add: world_defs run_defs)
  moreover have "fst (Store ''t'' [1] quietEnv stockedWorld) =
     (- 1, Some (Errorf ''saveAndRegisterMessage()'' (Errorf ''file.Write()'' EBADF)))"
    "topicDirs (disk (snd (Store ''t'' [1] quietEnv stockedWorld))) = [(''t'', [(''1'', [9])])]"
    by (simp_all add: world_defs run_defs)
  ultimately show ?thesis by blast
qed

text \<open>
  C5. When the append of the encoded message fails, \<open>Store\<close> returns -1 with the error
  of \<open>saveAndRegisterMessage\<close> and the index file is the one from before the call. The
  second part says the same from the side of the environment: when opening the message
  file for appending or the write itself is bound to fail, the call ends in an error
  and leaves the index file alone.
\<close>

theorem Store_append_failure:
  "(\<forall>n err. fst (Store topic msg e w) = (n, Some (Errorf ''saveAndRegisterMessage()'' err)) \<longrightarrow>
      n = - 1 \<and> indexFile (disk (snd (Store topic msg e w))) = indexFile (disk w)) \<and>
   (fails e OpenForAppend \<or> fails e WriteMessage \<longrightarrow>
      snd (fst (Store topic msg e w)) \<noteq> None \<and>
      indexFile (disk (snd (Store topic msg e w))) = indexFile (disk w))"
proof -
  obtain n r d' where s: "store topic msg e (disk w) = ((n, r), d')"
    by (metis prod.exhaust)
  from store_fails[OF s] s show ?thesis
    by (auto simp add: Store_store)
qed

theorem Store_append_failure_witness:
  "fails (failingAt WriteMessage) WriteMessage \<and>
   fst (Store ''t'' [1, 2] (failingAt WriteMessage) freshWorld) =
     (- 1, Some (Errorf ''saveAndRegisterMessage()'' (Errorf ''file.Write()'' EBADF))) \<and>
   indexFile (disk (snd (Store ''t'' [1, 2] (failingAt WriteMessage) freshWorld))) =
     Encoded NewIndex \<and>
   indexFile (disk freshWorld) = Encoded NewIndex \<and>
   topicDirs (disk (snd (Store ''t'' [1, 2] (failingAt WriteMessage) freshWorld))) =
     [(''t'', [(''1'', [])])]"
proof -
  have h: "fails (failingAt WriteMessage) WriteMessage" by (simp add: failingAt_def)
  have r: "fst (Store ''t'' [1, 2] (failingAt WriteMessage) freshWorld) =
     (- 1, Some (Errorf ''saveAndRegisterMessage()'' (Errorf ''file.Write()'' EBADF)))"
    by (simp add: world_defs run_defs)
  have t: "topicDirs (disk (snd (Store ''t'' [1, 2] (failingAt WriteMessage) freshWorld))) =
     [(''t'', [(''1'', [])])]"
    by (simp add: world_defs run_defs)
  have f: "indexFile (disk freshWorld) = Encoded NewIndex" by (simp add: freshWorld_def)
  show ?thesis
    using h r t f Store_append_failure [of "''t''" "[1, 2]" "failingAt WriteMessage" freshWorld]
    by simp
qed

text \<open>
  C6. When the index file is missing, or does not decode, or cannot be opened or read,
  \<open>Store\<close> returns -1 with the error of \<open>retrieveIndexFromDisk\<close>, and the disk is
  the one from before the call: no directory and no message file has been made or written.
\<close>

theorem Store_index_unavailable:
  assumes "indexFile (disk w) = NoFile \<or> indexFile (disk w) = Undecodable \<or>
           fails e OpenIndexForLoad \<or> fails e DecodeIndex"
  shows "(\<exists>err. fst (Store topic msg e w) = (- 1, Some (Errorf ''RetrieveIndexFromDisk()'' err))) \<and>
         disk (snd (Store topic msg e w)) = disk w"
proof -
  from retrieve_fails[OF assms] obtain err where "retrieveIndexFromDisk e (disk w) = Inl err" ..
  then have "store topic msg e (disk w) = ((- 1, Some (Errorf ''RetrieveIndexFromDisk()'' err)), disk w)"
    by (simp add: store_def)
  then show ?thesis by (simp add: Store_store)
qed

theorem Store_index_unavailable_witness:
  "indexFile (disk blankWorld) = NoFile \<and>
   fst (Store ''t'' [1] quietEnv blankWorld) =
     (- 1, Some (Errorf ''RetrieveIndexFromDisk()'' (Errorf ''os.Open()'' ENOENT))) \<and>
   disk (snd (Store ''t'' [1] quietEnv blankWorld)) = disk blankWorld \<and>
   indexFile (disk corruptWorld) = Undecodable \<and>
   fst (Store ''t'' [1] quietEnv corruptWorld) =
     (- 1, Some (Errorf ''RetrieveIndexFromDisk()'' (Errorf ''index.Decode()'' BadGob))) \<and>
   disk (snd (Store ''t'' [1] quietEnv corruptWorld)) = disk corruptWorld"
proof -
  have h: "indexFile (disk blankWorld) = NoFile" by (simp add: blankWorld_def)
  have g: "indexFile (disk corruptWorld) = Undecodable" by (simp add: corruptWorld_def)
  have r: "fst (Store ''t'' [1] quietEnv blankWorld) =
      (- 1, Some (Errorf ''RetrieveIndexFromDisk()'' (Errorf ''os.Open()'' ENOENT)))"
    "fst (Store ''t'' [1] quietEnv corruptWorld) =
      (- 1, Some (Errorf ''RetrieveIndexFromDisk()'' (Errorf ''index.Decode()'' BadGob)))"
    by (simp_all add: corruptWorld_def world_defs run_defs)
  have "disk (snd (Store ''t'' [1] quietEnv blankWorld)) = disk blankWorld"
    using Store_index_unavailable [of blankWorld quietEnv "''t''" "[1]"] h by blast
  moreover have "disk (snd (Store ''t'' [1] quietEnv corruptWorld)) = disk corruptWorld"
    using Store_index_unavailable [of corruptWorld quietEnv "''t''" "[1]"] g by blast
  ultimately show ?thesis using h g r by blast
qed




text \<open>
  C8 (code defect). \<open>Store\<close> and \<open>DeleteContents\<close> lock the mutex when they start and
  unlock it when they return. \<open>Poll\<close> and \<open>RemoveOldMessages\<close> perform no operation on
  the mutex at all.
\<close>

theorem only_Store_and_DeleteContents_lock:
  "mutexOps (snd (Store topic msg e w)) = mutexOps w @ [Lock, Unlock] \<and>
   mutexOps (snd (DeleteContents e w)) = mutexOps w @ [Lock, Unlock] \<and>
   mutexOps (snd (Poll topic readFrom w)) = mutexOps w \<and>
   mutexOps (snd (RemoveOldMessages maxAge w)) = mutexOps w"
  by (simp add: Store_store DeleteContents_def Poll_def RemoveOldMessages_def Let_def
           split: prod.splits)



text \<open>
  C10. Whenever \<open>Store\<close> returns an error, the number it returns is -1, and the error is
  one of the six that \<open>store\<close> wraps: index load, directory creation, room check, new-file
  setup, message write, index save.
\<close>

theorem Store_error_returns_minus_one:
  "snd (fst (Store topic msg e w)) \<noteq> None \<Longrightarrow>
     fst (fst (Store topic msg e w)) = - 1 \<and>
     (\<exists>p c. snd (fst (Store topic msg e w)) = Some (Errorf p c) \<and>
        p \<in> set [''RetrieveIndexFromDisk()'', ''createTopicDirIfNotExists'',
                 ''fileHasInsufficietRoom()'', ''setupNewFileForTopic()'',
                 ''saveAndRegisterMessage()'', ''saveIndex()''])"
proof -
  assume a: "snd (fst (Store topic msg e w)) \<noteq> None"
  obtain n r d' where s: "store topic msg e (disk w) = ((n, r), d')"
    by (metis prod.exhaust)
  with a obtain err where "r = Some err" by (auto simp: Store_store)
  with s store_error_tags[of topic msg e "disk w" n err d'] show ?thesis
    by (simp add: Store_store)
qed

theorem Store_error_returns_minus_one_witness:
  "fst (Store ''t'' [1] quietEnv blankWorld) =
     (- 1, Some (Errorf ''RetrieveIndexFromDisk()'' (Errorf ''os.Open()'' ENOENT))) \<and>
   fst (Store ''t'' [1] (failingAt MkdirTopic) freshWorld) =
     (- 1, Some (Errorf ''createTopicDirIfNotExists'' (Errorf ''os.Mkdir()'' EIO))) \<and>
   fst (Store ''t'' [1] (failingAt StatFile) stockedWorld) =
     (- 1, Some (Errorf ''fileHasInsufficietRoom()'' (Errorf ''file.Stat()'' EIO))) \<and>
   fst (Store ''t'' [1] (failingAt CreateFile) freshWorld) =
     (- 1, Some (Errorf ''setupNewFileForTopic()'' (Errorf ''os.Create()'' EIO))) \<and>
   fst (Store ''t'' [1] quietEnv freshWorld) =
     (- 1, Some (Errorf ''saveAndRegisterMessage()'' (Errorf ''file.Write()'' EBADF)))"
proof -
  have e: "snd (fst (Store ''t'' [1] quietEnv blankWorld)) =
             Some (Errorf ''RetrieveIndexFromDisk()'' (Errorf ''os.Open()'' ENOENT))"
    "snd (fst (Store ''t'' [1] (failingAt MkdirTopic) freshWorld)) =
             Some (Errorf ''createTopicDirIfNotExists'' (Errorf ''os.Mkdir()'' EIO))"
    "snd (fst (Store ''t'' [1] (failingAt StatFile) stockedWorld)) =
             Some (Errorf ''fileHasInsufficietRoom()'' (Errorf ''file.Stat()'' EIO))"
    "snd (fst (Store ''t'' [1] (failingAt CreateFile) freshWorld)) =
             Some (Errorf ''setupNewFileForTopic()'' (Errorf ''os.Create()'' EIO))"
    "snd (fst (Store ''t'' [1] quietEnv freshWorld)) =
             Some (Errorf ''saveAndRegisterMessage()'' (Errorf ''file.Write()'' EBADF))"
    by (simp_all add: world_defs run_defs)
  have n: "fst (fst (Store ''t'' [1] quietEnv blankWorld)) = - 1"
    "fst (fst (Store ''t'' [1] (failingAt MkdirTopic) freshWorld)) = - 1"
    "fst (fst (Store ''t'' [1] (failingAt StatFile) stockedWorld)) = - 1"
    "fst (fst (Store ''t'' [1] (failingAt CreateFile) freshWorld)) = - 1"
    "fst (fst (Store ''t'' [1] quietEnv freshWorld)) = - 1"
    using e by (simp_all add: Store_error_returns_minus_one)
  show ?thesis using e n by (simp add: prod_eq_iff)
qed

end
